theory Spec2Isabelle
  imports Complex_Main
begin

section \<open>Two-dimensional numeric arrays\<close>

text \<open>
  The notebooks work on small two-dimensional \<open>numpy\<close> arrays. An array is modelled as
  the list of its rows; its shape is the number of rows and the length of the first row.
  Integer arrays (\<open>int64\<close>) have entries of type \<open>int\<close>; \<open>float64\<close> and
  \<open>complex128\<close> entries are read as exact real and complex numbers, so rounding,
  overflow and the special values of the machine formats are outside this model.
  A shape error of \<open>numpy\<close> (\<open>ValueError\<close>) is the left summand of the result.
  Vectors are columns, arrays with rows of length 1, as the notebook builds them.
\<close>

type_synonym 'a ndarray = "'a list list"

datatype error = ValueError | QiskitBackendNotFoundError

definition shape :: "'a ndarray \<Rightarrow> nat \<times> nat" where
  "shape a = (length a, case a of [] \<Rightarrow> 0 | r # _ \<Rightarrow> length r)"

text \<open>\<open>a.T\<close>: entry \<open>(j, i)\<close> of the result is entry \<open>(i, j)\<close> of \<open>a\<close>.\<close>

definition T_arr :: "'a ndarray \<Rightarrow> 'a ndarray" where
  "T_arr a = map (\<lambda>j. map (\<lambda>r. r ! j) a) [0..<snd (shape a)]"

text \<open>\<open>a.conj()\<close>: the complex conjugate of every entry; on an integer array every
  entry is its own conjugate.\<close>

definition conj_arr :: "complex ndarray \<Rightarrow> complex ndarray" where
  "conj_arr a = map (map cnj) a"

definition conj_int :: "int ndarray \<Rightarrow> int ndarray" where
  "conj_int a = map (map (\<lambda>x. x)) a"

text \<open>\<open>a.dot(b)\<close> on two-dimensional arrays is the matrix product; it raises when the
  number of columns of \<open>a\<close> differs from the number of rows of \<open>b\<close>.\<close>

definition dot :: "'a::semiring_0 ndarray \<Rightarrow> 'a ndarray \<Rightarrow> error + 'a ndarray" where
  "dot a b =
     (if snd (shape a) \<noteq> fst (shape b) then Inl ValueError
      else Inr (map (\<lambda>r. map (\<lambda>j. sum_list (map2 (*) r (map (\<lambda>c. c ! j) b)))
                              [0..<snd (shape b)]) a))"

text \<open>\<open>np.eye(n)\<close>, and an array divided or multiplied by a scalar.\<close>

definition eye :: "nat \<Rightarrow> 'a::zero_neq_one ndarray" where
  "eye n = map (\<lambda>i. map (\<lambda>j. if i = j then 1 else 0) [0..<n]) [0..<n]"

definition sdiv :: "'a::inverse ndarray \<Rightarrow> 'a \<Rightarrow> 'a ndarray" where
  "sdiv a c = map (map (\<lambda>x. x / c)) a"

definition smul :: "'a::times \<Rightarrow> 'a ndarray \<Rightarrow> 'a ndarray" where
  "smul c a = map (map (\<lambda>x. c * x)) a"

text \<open>
  \<open>a + b\<close> adds entry by entry after broadcasting: along each axis the two lengths must
  be equal, or one of them must be 1, and the array of length 1 is repeated.
\<close>

definition broadcast_dim :: "nat \<Rightarrow> nat \<Rightarrow> nat option" where
  "broadcast_dim m n =
     (if m = n then Some m else if m = 1 then Some n else if n = 1 then Some m else None)"

definition broadcast_to :: "nat \<times> nat \<Rightarrow> 'a ndarray \<Rightarrow> 'a ndarray" where
  "broadcast_to s a =
     map (\<lambda>r. if length r = snd s then r else replicate (snd s) (hd r))
         (if length a = fst s then a else replicate (fst s) (hd a))"

definition add :: "'a::plus ndarray \<Rightarrow> 'a ndarray \<Rightarrow> error + 'a ndarray" where
  "add a b =
     (case (broadcast_dim (fst (shape a)) (fst (shape b)),
            broadcast_dim (snd (shape a)) (snd (shape b))) of
        (Some m, Some n) \<Rightarrow>
          Inr (map2 (map2 (+)) (broadcast_to (m, n) a) (broadcast_to (m, n) b))
      | _ \<Rightarrow> Inl ValueError)"

text \<open>Every array has rows of one length; this is the invariant of the representation.\<close>

definition well_formed :: "'a ndarray \<Rightarrow> bool" where
  "well_formed a = list_all (\<lambda>r. length r = snd (shape a)) a"

text \<open>\<open>a.astype(float)\<close> and the upcast of a real array to a complex one.\<close>

definition astype_float :: "int ndarray \<Rightarrow> real ndarray" where
  "astype_float a = map (map real_of_int) a"

definition astype_complex :: "real ndarray \<Rightarrow> complex ndarray" where
  "astype_complex a = map (map complex_of_real) a"

text \<open>
  \<open>np.linalg.norm(a)\<close> with no further argument: the array is flattened and the square
  root of the sum of the squared absolute values is returned. An integer array is
  converted with \<open>astype(float)\<close> first, which is written at the call.
\<close>

definition linalg_norm :: "'a::real_normed_vector ndarray \<Rightarrow> real" where
  "linalg_norm a = sqrt (sum_list (map (\<lambda>x. (norm x)\<^sup>2) (concat a)))"



section \<open>The unitarity check\<close>

text \<open>
  \<^verbatim>\<open>X = np.array([[0, 1], [1, 0]])\<close>
  \<^verbatim>\<open>print(X.dot(X.T.conj()))\<close>
  \<^verbatim>\<open>print(X.T.conj().dot(X))\<close>
\<close>

definition X :: "int ndarray" where
  "X = [[0, 1], [1, 0]]"

definition XX_dagger :: "error + int ndarray" where
  "XX_dagger = dot X (conj_int (T_arr X))"

definition X_daggerX :: "error + int ndarray" where
  "X_daggerX = dot (conj_int (T_arr X)) X"

section \<open>The decoherence example\<close>

text \<open>
  \<^verbatim>\<open>def mixed_state(pure_state, visibility):\<close>
  \<^verbatim>\<open>    density_matrix = pure_state.dot(pure_state.T.conj())\<close>
  \<^verbatim>\<open>    maximally_mixed_state = np.eye(4)/2**2\<close>
  \<^verbatim>\<open>    return visibility*density_matrix + (1-visibility)*maximally_mixed_state\<close>
  The visibility is a real scalar; the entries of the state are complex (a real state
  has zero imaginary parts).
\<close>

definition mixed_state :: "complex ndarray \<Rightarrow> real \<Rightarrow> error + complex ndarray" where
  "mixed_state pure_state visibility =
     (case dot pure_state (conj_arr (T_arr pure_state)) of
        Inl e \<Rightarrow> Inl e
      | Inr density_matrix \<Rightarrow>
          (let maximally_mixed_state = sdiv (eye 4) (2 ^ 2)
           in add (smul (complex_of_real visibility) density_matrix)
                  (smul (complex_of_real (1 - visibility)) maximally_mixed_state)))"

text \<open>
  The formula of the specification, entry by entry: \<open>v\<close> times the outer product of
  \<open>psi\<close> with itself plus \<open>1 - v\<close> times the identity divided by 4.
\<close>

definition mixed_state_spec :: "complex ndarray \<Rightarrow> real \<Rightarrow> complex ndarray" where
  "mixed_state_spec psi v =
     map (\<lambda>i. map (\<lambda>j. complex_of_real v * (psi ! i ! 0 * cnj (psi ! j ! 0))
                        + complex_of_real (1 - v) * ((if i = j then 1 else 0) / 4))
                  [0..<4]) [0..<4]"

text \<open>
  The same matrix written out for the column vector with entries \<open>a\<close>, \<open>b\<close>,
  \<open>c\<close>, \<open>d\<close>, and the inner product of that vector with a second one.
\<close>

definition mixed4 :: "complex \<Rightarrow> complex \<Rightarrow> complex \<Rightarrow> complex \<Rightarrow> real \<Rightarrow> complex ndarray" where
  "mixed4 a b c d v =
     [[complex_of_real v * (a * cnj a) + (1 - complex_of_real v) / 4,
       complex_of_real v * (a * cnj b), complex_of_real v * (a * cnj c),
       complex_of_real v * (a * cnj d)],
      [complex_of_real v * (b * cnj a),
       complex_of_real v * (b * cnj b) + (1 - complex_of_real v) / 4,
       complex_of_real v * (b * cnj c), complex_of_real v * (b * cnj d)],
      [complex_of_real v * (c * cnj a), complex_of_real v * (c * cnj b),
       complex_of_real v * (c * cnj c) + (1 - complex_of_real v) / 4,
       complex_of_real v * (c * cnj d)],
      [complex_of_real v * (d * cnj a), complex_of_real v * (d * cnj b),
       complex_of_real v * (d * cnj c),
       complex_of_real v * (d * cnj d) + (1 - complex_of_real v) / 4]]"

definition overlap4 ::
  "complex \<Rightarrow> complex \<Rightarrow> complex \<Rightarrow> complex \<Rightarrow> complex \<Rightarrow> complex \<Rightarrow> complex \<Rightarrow> complex \<Rightarrow> complex" where
  "overlap4 a b c d x1 x2 x3 x4 = cnj a * x1 + cnj b * x2 + cnj c * x3 + cnj d * x4"

text \<open>
  The entangled state of the notebook, a \<open>float64\<close> array:
  \<^verbatim>\<open>phi = np.array([[1],[0],[0],[1]])/np.sqrt(2)\<close>
\<close>

definition phi :: "real ndarray" where
  "phi = sdiv (astype_float [[1], [0], [0], [1]]) (sqrt 2)"


definition is_column :: "nat \<Rightarrow> 'a ndarray \<Rightarrow> bool" where
  "is_column n x = (well_formed x \<and> shape x = (n, 1))"


definition eigenpair :: "complex ndarray \<Rightarrow> complex \<Rightarrow> complex ndarray \<Rightarrow> bool" where
  "eigenpair m l x =
     (is_column (length m) x \<and> \<not> list_all (\<lambda>r. r = [0]) x \<and> dot m x = Inr (smul l x))"


section \<open>The norm check\<close>

text \<open>
  \<^verbatim>\<open>zero_ket = np.array([[1], [0]])\<close>
  \<^verbatim>\<open>print(np.linalg.norm(zero_ket))\<close>
  \<^verbatim>\<open>print(np.linalg.norm(X.dot(zero_ket)))\<close>
\<close>

definition zero_ket :: "int ndarray" where
  "zero_ket = [[1], [0]]"

definition norm_before :: real where
  "norm_before = linalg_norm (astype_float zero_ket)"

definition norm_after :: "error + real" where
  "norm_after =
     (case dot X zero_ket of Inl e \<Rightarrow> Inl e | Inr y \<Rightarrow> Inr (linalg_norm (astype_float y)))"

section \<open>The two-gate circuit\<close>

text \<open>
  \<^verbatim>\<open>q = QuantumRegister(1)\<close>
  \<^verbatim>\<open>circuit = QuantumCircuit(q, c)\<close>
  \<^verbatim>\<open>circuit.x(q[0])\<close>
  \<^verbatim>\<open>circuit.x(q[0])\<close>
  \<^verbatim>\<open>job = execute(circuit, backend_statevector)\<close>
  \<^verbatim>\<open>print(job.result().get_statevector(circuit))\<close>
  The register has one qubit, so a circuit is the list of the gates applied to it.
\<close>

datatype gate = x_gate

definition circuit :: "gate list" where
  "circuit = [x_gate, x_gate]"

text \<open>
  Modelled from the spec: the statevector simulator, a library that is not part of the
  notebook. The specification describes it as an exact simulator that starts from the
  basis state \<open>[1,0]\<^sup>t\<close> and applies the operator of each gate in turn, the operator of
  the bit-flip gate being the matrix \<open>X\<close> of the unitarity check; the state vector is
  returned as a flat array.
\<close>

definition gate_matrix :: "gate \<Rightarrow> complex ndarray" where
  "gate_matrix g = (case g of x_gate \<Rightarrow> astype_complex (astype_float X))"

text \<open>Modelled from the spec: the simulator applies the gates in the order of the
  circuit, each by a matrix product with the state.\<close>

fun run_gates :: "gate list \<Rightarrow> complex ndarray \<Rightarrow> error + complex ndarray" where
  "run_gates [] state = Inr state"
| "run_gates (g # gs) state =
     (case dot (gate_matrix g) state of
        Inl e \<Rightarrow> Inl e
      | Inr state' \<Rightarrow> run_gates gs state')"

text \<open>Modelled from the spec: the run starts from the basis state \<open>[1,0]\<^sup>t\<close> (the
  \<open>zero_ket\<close> of the norm check, as a complex array) and \<open>get_statevector\<close> returns
  the final state flattened.\<close>

definition get_statevector :: "gate list \<Rightarrow> error + complex list" where
  "get_statevector c =
     (case run_gates c (astype_complex (astype_float zero_ket)) of
        Inl e \<Rightarrow> Inl e
      | Inr state \<Rightarrow> Inr (concat state))"

text \<open>Two state vectors are the same up to a global phase when one is the other
  multiplied by a complex number of absolute value 1.\<close>

definition same_up_to_phase :: "complex list \<Rightarrow> complex list \<Rightarrow> bool" where
  "same_up_to_phase u w = (\<exists>z. cmod z = 1 \<and> u = map (\<lambda>x. z * x) w)"

section \<open>The Boltzmann distribution\<close>

text \<open>
  \<^verbatim>\<open>temperatures = [.5, 5, 2000]\<close>
  \<^verbatim>\<open>energies = np.linspace(0, 20, 100)\<close>
  \<^verbatim>\<open>for i, T in enumerate(temperatures):\<close>
  \<^verbatim>\<open>    probabilities = np.exp(-energies/T)\<close>
  \<^verbatim>\<open>    Z = probabilities.sum()\<close>
  \<^verbatim>\<open>    probabilities /= Z\<close>
  The three statements of the loop body are \<open>weights\<close>, \<open>Z\<close> and \<open>probabilities\<close>,
  each a function of the temperature. The temperatures of the notebook are positive;
  at temperature 0 the source divides by zero and the model says nothing about it.
  \<open>np.linspace(start, stop, num)\<close> is the grid of \<open>num\<close> evenly spaced points from
  \<open>start\<close> to \<open>stop\<close>, both included.
\<close>

definition temperatures :: "real list" where
  "temperatures = [1 / 2, 5, 2000]"

definition linspace :: "real \<Rightarrow> real \<Rightarrow> nat \<Rightarrow> real list" where
  "linspace start stop num =
     map (\<lambda>i. start + real i * ((stop - start) / real (num - 1))) [0..<num]"

definition energies :: "real list" where
  "energies = linspace 0 20 100"

definition weights :: "real \<Rightarrow> real list" where
  "weights T = map (\<lambda>E. exp (- E / T)) energies"

definition Z :: "real \<Rightarrow> real" where
  "Z T = sum_list (weights T)"

definition probabilities :: "real \<Rightarrow> real list" where
  "probabilities T = map (\<lambda>p. p / Z T) (weights T)"

section \<open>The backend status reporter\<close>

text \<open>
  A backend as the report reads it: \<open>name()\<close>, \<open>configuration().n_qubits\<close> and
  \<open>status().pending_jobs\<close>. The provider is the remote service: the list that
  \<open>provider.backends(operational=True)\<close> returns, in the order of the service, and the
  lookup \<open>provider.get_backend\<close>, which may raise.
\<close>

record backend =
  name :: string
  n_qubits :: int
  pending_jobs :: int

record provider =
  backends :: "backend list"
  get_backend :: "string \<Rightarrow> error + backend"

text \<open>\<open>str(backend)\<close> is the name of the backend.\<close>

definition str_backend :: "backend \<Rightarrow> string" where
  "str_backend b = name b"

text \<open>
  The format fields of the report: \<open>{0:20}\<close> on a string and \<open>{1:<10}\<close> on an integer
  pad on the right with spaces up to the width and never truncate; an integer is
  written in decimal.
\<close>

definition ljust :: "nat \<Rightarrow> string \<Rightarrow> string" where
  "ljust w s = s @ replicate (w - length s) CHR '' ''"

fun digits :: "nat \<Rightarrow> string" where
  "digits n =
     (if n < 10 then [char_of (48 + n)] else digits (n div 10) @ [char_of (48 + n mod 10)])"

definition str_int :: "int \<Rightarrow> string" where
  "str_int i = (if i < 0 then CHR ''-'' # digits (nat (- i)) else digits (nat i))"

text \<open>
  \<^verbatim>\<open>"{0:20} {1:<10} {2:<10} ".format("Name","#Qubits","Pending jobs")\<close>
  \<^verbatim>\<open>"{0:20} {1:<10} {2:<10}".format(name, n_qubits, pending_jobs)\<close>
\<close>

definition format_header :: "string \<Rightarrow> string \<Rightarrow> string \<Rightarrow> string" where
  "format_header a b c = ljust 20 a @ '' '' @ ljust 10 b @ '' '' @ ljust 10 c @ '' ''"

definition format_row :: "string \<Rightarrow> int \<Rightarrow> int \<Rightarrow> string" where
  "format_row a q j = ljust 20 a @ '' '' @ ljust 10 (str_int q) @ '' '' @ ljust 10 (str_int j)"

definition header :: "string list" where
  "header = [format_header ''Name'' ''#Qubits'' ''Pending jobs'',
             format_header ''++++'' ''+++++++'' ''++++++++++++'']"

definition row :: "backend \<Rightarrow> string" where
  "row available_backend =
     format_row (name available_backend) (n_qubits available_backend)
       (pending_jobs available_backend)"

text \<open>
  \<^verbatim>\<open>for n in range(0, len(available_backends)):\<close>
  \<^verbatim>\<open>    available_backend = provider.get_backend(str(available_backends[n]))\<close>
  \<^verbatim>\<open>    print(...)\<close>
  Standard output is the list of the printed lines. An exception of the lookup ends
  the loop; the lines printed so far stay.
\<close>

fun print_rows :: "provider \<Rightarrow> backend list \<Rightarrow> string list \<Rightarrow> string list \<times> error option" where
  "print_rows p [] out = (out, None)"
| "print_rows p (b # bs) out =
     (case get_backend p (str_backend b) of
        Inl e \<Rightarrow> (out, Some e)
      | Inr available_backend \<Rightarrow> print_rows p bs (out @ [row available_backend]))"

definition status_report :: "provider \<Rightarrow> string list \<times> error option" where
  "status_report p =
     (let available_backends = backends p
      in print_rows p available_backends header)"

text \<open>
  The service as the notebook met it: the five backends of the recorded output, looked
  up by name.
\<close>

definition recorded_backends :: "backend list" where
  "recorded_backends =
     [\<lparr>name = ''ibmq_qasm_simulator'', n_qubits = 32, pending_jobs = 0\<rparr>,
      \<lparr>name = ''ibmqx2'', n_qubits = 5, pending_jobs = 81\<rparr>,
      \<lparr>name = ''ibmq_16_melbourne'', n_qubits = 14, pending_jobs = 2\<rparr>,
      \<lparr>name = ''ibmq_vigo'', n_qubits = 5, pending_jobs = 2\<rparr>,
      \<lparr>name = ''ibmq_ourense'', n_qubits = 5, pending_jobs = 2\<rparr>]"

definition lookup_backend :: "backend list \<Rightarrow> string \<Rightarrow> error + backend" where
  "lookup_backend bs s =
     (case filter (\<lambda>b. name b = s) bs of
        [b] \<Rightarrow> Inr b
      | _ \<Rightarrow> Inl QiskitBackendNotFoundError)"

definition recorded_provider :: provider where
  "recorded_provider =
     \<lparr>backends = recorded_backends, get_backend = lookup_backend recorded_backends\<rparr>"

section \<open>Evaluation of the array operations\<close>

declare digits.simps [simp del]

lemmas array_defs = shape_def T_arr_def conj_arr_def conj_int_def dot_def eye_def sdiv_def
  smul_def broadcast_dim_def broadcast_to_def add_def astype_float_def astype_complex_def

text \<open>
  Claim C3. For the bit-flip matrix \<open>X = [[0,1],[1,0]]\<close> of the notebook, both
  \<open>X\<close> times its conjugate transpose and its conjugate transpose times \<open>X\<close> are the
  2x2 identity matrix, with integer entries.
\<close>

theorem X_unitary:
  "XX_dagger = Inr [[1, 0], [0, 1 :: int]] \<and> X_daggerX = Inr [[1, 0], [0, 1 :: int]]
   \<and> [[1, 0], [0, 1 :: int]] = eye 2"
  by (simp add: XX_dagger_def X_daggerX_def X_def array_defs upt_rec)

text \<open>
  Claim C7. For the basis vector \<open>[1,0]\<^sup>t\<close> and the bit-flip matrix, the Euclidean norm
  before applying the matrix and the norm after applying it are both exactly 1.
\<close>

theorem norm_preserved:
  "norm_before = 1 \<and> norm_after = Inr 1"
  by (simp add: norm_before_def norm_after_def zero_ket_def X_def linalg_norm_def array_defs upt_rec)

section \<open>The mixed state of a four-dimensional column vector\<close>

lemma column4:
  assumes "well_formed psi" "shape psi = (4, 1)"
  obtains a b c d where "psi = [[a], [b], [c], [d]]"
proof -
  from assms(2) have len: "length psi = 4" by (simp add: shape_def)
  then obtain r1 r2 r3 r4 where psi: "psi = [r1, r2, r3, r4]"
    by (auto simp: numeral_eq_Suc length_Suc_conv)
  from assms psi have "length r1 = 1" "length r2 = 1" "length r3 = 1" "length r4 = 1"
    by (simp_all add: well_formed_def shape_def)
  then obtain a b c d where "r1 = [a]" "r2 = [b]" "r3 = [c]" "r4 = [d]"
    by (auto simp: length_Suc_conv)
  with psi show thesis using that by simp
qed

lemma column4_wf: "well_formed [[a], [b], [c], [d]] \<and> shape [[a], [b], [c], [d]] = (4, 1)"
  by (simp add: well_formed_def shape_def)

lemma mixed_state_column: "mixed_state [[a], [b], [c], [d]] v = Inr (mixed4 a b c d v)"
  by (simp add: mixed_state_def array_defs upt_rec Let_def mixed4_def)

text \<open>Other shapes: a column of two entries cannot be added to the 4x4 identity, and
  a single entry is broadcast over it.\<close>

lemma mixed_state_two_rows: "mixed_state [[a], [b]] v = Inl ValueError"
  by (simp add: mixed_state_def array_defs upt_rec Let_def)

lemma mixed_state_one_entry:
  "mixed_state [[a]] v =
     Inr (map (\<lambda>i. map (\<lambda>j. complex_of_real v * (a * cnj a)
                              + complex_of_real (1 - v) * ((if i = j then 1 else 0) / 4))
                        [0..<4]) [0..<4])"
  by (simp add: mixed_state_def array_defs upt_rec Let_def)

lemma spec_column: "mixed_state_spec [[a], [b], [c], [d]] v = mixed4 a b c d v"
  by (simp add: mixed_state_spec_def upt_rec mixed4_def)






text \<open>
  Claim C1. Applied to a four-dimensional column vector \<open>psi\<close> and a scalar \<open>v\<close>,
  \<open>mixed_state\<close> returns \<open>v\<close> times the outer product of \<open>psi\<close> with its conjugate
  transpose plus \<open>1 - v\<close> times the 4x4 identity divided by 4.
\<close>

theorem mixed_state_refines_spec:
  assumes "well_formed psi" and "shape psi = (4, 1)"
  shows "mixed_state psi v = Inr (mixed_state_spec psi v)"
proof -
  from assms obtain a b c d where "psi = [[a], [b], [c], [d]]" by (rule column4)
  then show ?thesis by (simp add: mixed_state_column spec_column)
qed

theorem mixed_state_refines_spec_witness:
  "well_formed [[1], [0], [0], [0 :: complex]] \<and> shape [[1], [0], [0], [0 :: complex]] = (4, 1)
   \<and> mixed_state [[1], [0], [0], [0]] (1 / 2)
       = Inr [[5 / 8, 0, 0, 0], [0, 1 / 8, 0, 0], [0, 0, 1 / 8, 0], [0, 0, 0, 1 / 8]]"
proof -
  have wf: "well_formed [[1], [0], [0], [0 :: complex]]"
    and sh: "shape [[1], [0], [0], [0 :: complex]] = (4, 1)"
    by (simp_all add: column4_wf)
  have "mixed_state_spec [[1], [0], [0], [0]] (1 / 2)
      = [[5 / 8, 0, 0, 0], [0, 1 / 8, 0, 0], [0, 0, 1 / 8, 0], [0, 0, 0, 1 / 8]]"
    by (simp add: mixed_state_spec_def upt_rec)
  with mixed_state_refines_spec [OF wf sh, of "1 / 2"] wf sh show ?thesis by simp
qed


lemma phi_complex:
  "astype_complex phi = [[1 / complex_of_real (sqrt 2)], [0], [0], [1 / complex_of_real (sqrt 2)]]"
  by (simp add: phi_def array_defs)



text \<open>
  Claim C5. With visibility 1 and the entangled state \<open>phi\<close> of the notebook,
  \<open>mixed_state\<close> returns the density matrix of the pure state, the outer product of
  \<open>phi\<close> with itself, with nothing of the identity mixed in.
\<close>

theorem mixed_state_full_visibility:
  "mixed_state (astype_complex phi) 1
     = dot (astype_complex phi) (conj_arr (T_arr (astype_complex phi)))
   \<and> mixed_state (astype_complex phi) 1
     = Inr (astype_complex [[1 / 2, 0, 0, 1 / 2], [0, 0, 0, 0], [0, 0, 0, 0], [1 / 2, 0, 0, 1 / 2]])"
proof -
  have "mixed_state (astype_complex phi) 1
      = Inr (astype_complex [[1 / 2, 0, 0, 1 / 2], [0, 0, 0, 0], [0, 0, 0, 0], [1 / 2, 0, 0, 1 / 2]])"
    unfolding phi_complex mixed_state_column
    by (simp add: mixed4_def astype_complex_def flip: of_real_mult)
  moreover have "dot (astype_complex phi) (conj_arr (T_arr (astype_complex phi)))
      = Inr (astype_complex [[1 / 2, 0, 0, 1 / 2], [0, 0, 0, 0], [0, 0, 0, 0], [1 / 2, 0, 0, 1 / 2]])"
    unfolding phi_complex
    by (simp add: array_defs upt_rec flip: of_real_mult)
  ultimately show ?thesis by simp
qed

text \<open>The three other matrices that the notebook prints, for 0.8, 0.6 and 0.2.\<close>

lemma mixed_state_recorded:
  "mixed_state (astype_complex phi) (4 / 5)
     = Inr (astype_complex [[9 / 20, 0, 0, 2 / 5], [0, 1 / 20, 0, 0], [0, 0, 1 / 20, 0], [2 / 5, 0, 0, 9 / 20]])"
  "mixed_state (astype_complex phi) (3 / 5)
     = Inr (astype_complex [[2 / 5, 0, 0, 3 / 10], [0, 1 / 10, 0, 0], [0, 0, 1 / 10, 0], [3 / 10, 0, 0, 2 / 5]])"
  "mixed_state (astype_complex phi) (1 / 5)
     = Inr (astype_complex [[3 / 10, 0, 0, 1 / 10], [0, 1 / 5, 0, 0], [0, 0, 1 / 5, 0], [1 / 10, 0, 0, 3 / 10]])"
  unfolding phi_complex mixed_state_column
  by (simp_all add: mixed4_def astype_complex_def flip: of_real_mult)



section \<open>Positive semidefiniteness\<close>

lemma dot4: "dot (mixed4 a b c d v) [[x1], [x2], [x3], [x4]] =
  Inr [[complex_of_real v * a * overlap4 a b c d x1 x2 x3 x4 + (1 - complex_of_real v) / 4 * x1],
       [complex_of_real v * b * overlap4 a b c d x1 x2 x3 x4 + (1 - complex_of_real v) / 4 * x2],
       [complex_of_real v * c * overlap4 a b c d x1 x2 x3 x4 + (1 - complex_of_real v) / 4 * x3],
       [complex_of_real v * d * overlap4 a b c d x1 x2 x3 x4 + (1 - complex_of_real v) / 4 * x4]]"
  by (simp add: mixed4_def array_defs upt_rec overlap4_def algebra_simps)





lemma length_mixed4: "length (mixed4 a b c d v) = 4"
  by (simp add: mixed4_def)

lemma eigenpair_example:
  "eigenpair (mixed4 1 0 0 0 (1 / 2)) (5 / 8) [[1], [0], [0], [0]]"
  unfolding eigenpair_def is_column_def dot4 length_mixed4
  by (simp add: column4_wf overlap4_def smul_def)





section \<open>Two bit flips\<close>

lemma gate_matrix_x: "gate_matrix x_gate = [[0, 1], [1, 0]]"
  by (simp add: gate_matrix_def X_def array_defs)

lemma flip_column: "dot (gate_matrix x_gate) [[a], [b]] = Inr [[b], [a]]"
  unfolding gate_matrix_x by (simp add: array_defs upt_rec)

lemma flip_twice: "run_gates circuit [[a], [b]] = Inr [[a], [b]]"
  by (simp add: circuit_def flip_column)

lemma same_up_to_phase_refl: "same_up_to_phase u u"
  unfolding same_up_to_phase_def
proof (intro exI conjI)
  show "cmod 1 = 1" by simp
  show "u = map (\<lambda>x. 1 * x) u" by (induction u) simp_all
qed

text \<open>
  Claim C4. Applying the bit flip twice to the basis state \<open>[1,0]\<^sup>t\<close>, as the two-gate
  circuit does on the exact simulator, gives \<open>[1,0]\<^sup>t\<close> again, up to a global phase:
  the two applications compose to the identity.
\<close>

theorem two_flips_identity:
  "get_statevector circuit = Inr [1, 0]
   \<and> (\<exists>s. get_statevector circuit = Inr s \<and> same_up_to_phase s [1, 0])
   \<and> (\<forall>a b. run_gates circuit [[a], [b]] = Inr [[a], [b]])
   \<and> dot (gate_matrix x_gate) (gate_matrix x_gate) = Inr (eye 2)"
proof -
  have "astype_complex (astype_float zero_ket) = [[1], [0]]"
    by (simp add: zero_ket_def array_defs)
  then have sv: "get_statevector circuit = Inr [1, 0]"
    by (simp add: get_statevector_def flip_twice)
  have "dot (gate_matrix x_gate) (gate_matrix x_gate) = Inr (eye 2)"
    unfolding gate_matrix_x by (simp add: array_defs upt_rec)
  with sv show ?thesis by (simp add: flip_twice same_up_to_phase_refl)
qed

section \<open>The Boltzmann weights\<close>

lemma length_energies: "length energies = 100"
  by (simp add: energies_def linspace_def)

lemma sum_list_pos_map:
  fixes f :: "'a \<Rightarrow> real"
  shows "xs \<noteq> [] \<Longrightarrow> (\<And>x. 0 < f x) \<Longrightarrow> 0 < sum_list (map f xs)"
proof (induction xs)
  case Nil
  then show ?case by simp
next
  case (Cons x xs)
  show ?case
  proof (cases "xs = []")
    case True
    with Cons.prems show ?thesis by simp
  next
    case False
    with Cons have "0 < sum_list (map f xs)" by simp
    moreover have "0 < f x" by (rule Cons.prems)
    ultimately show ?thesis by simp
  qed
qed

lemma sum_list_map_divide:
  fixes xs :: "real list"
  shows "sum_list (map (\<lambda>p. p / z) xs) = sum_list xs / z"
  by (induction xs) (simp_all add: add_divide_distrib)

lemma Z_pos: "0 < Z T"
  unfolding Z_def weights_def
proof (rule sum_list_pos_map)
  show "energies \<noteq> []" using length_energies by auto
qed simp

lemma probabilities_sum: "sum_list (probabilities T) = 1"
proof -
  have "sum_list (probabilities T) = Z T / Z T"
    unfolding probabilities_def sum_list_map_divide Z_def ..
  with Z_pos [of T] show ?thesis by simp
qed

lemma probabilities_pos: "list_all (\<lambda>p. 0 < p) (probabilities T)"
  using Z_pos [of T] by (simp add: probabilities_def weights_def list_all_iff)

lemma length_probabilities: "length (probabilities T) = 100"
  by (simp add: probabilities_def weights_def length_energies)

lemma weight_limit: "((\<lambda>T. exp (- E / T)) \<longlongrightarrow> (1 :: real)) at_top"
proof -
  have "((\<lambda>T::real. - E / T) \<longlongrightarrow> 0) at_top"
    by (intro tendsto_divide_0 [OF tendsto_const] filterlim_at_top_imp_at_infinity filterlim_ident)
  then have "((\<lambda>T. exp (- E / T)) \<longlongrightarrow> exp 0) at_top" by (rule tendsto_exp)
  then show ?thesis by simp
qed

lemma sum_list_limit:
  fixes f :: "'a \<Rightarrow> real \<Rightarrow> real"
  assumes "\<And>x. ((\<lambda>t. f x t) \<longlongrightarrow> 1) F"
  shows "((\<lambda>t. sum_list (map (\<lambda>x. f x t) xs)) \<longlongrightarrow> real (length xs)) F"
proof (induction xs)
  case Nil
  show ?case by simp
next
  case (Cons x xs)
  have "((\<lambda>t. f x t + sum_list (map (\<lambda>x. f x t) xs)) \<longlongrightarrow> 1 + real (length xs)) F"
    by (intro tendsto_add assms Cons.IH)
  then show ?case by (simp add: add.commute)
qed

lemma Z_limit: "(Z \<longlongrightarrow> 100) at_top"
proof -
  have "((\<lambda>T. sum_list (map (\<lambda>E. exp (- E / T)) energies)) \<longlongrightarrow> real (length energies)) at_top"
    by (rule sum_list_limit) (rule weight_limit)
  then show ?thesis by (simp add: length_energies Z_def [abs_def] weights_def)
qed

lemma probabilities_limit:
  assumes "i < 100"
  shows "((\<lambda>T. probabilities T ! i) \<longlongrightarrow> 1 / 100) at_top"
proof -
  have "((\<lambda>T. exp (- (energies ! i) / T) / Z T) \<longlongrightarrow> 1 / 100) at_top"
    by (intro tendsto_divide weight_limit Z_limit) simp
  moreover have "probabilities T ! i = exp (- (energies ! i) / T) / Z T" for T
    using assms by (simp add: probabilities_def weights_def length_energies)
  ultimately show ?thesis by simp
qed

text \<open>
  Claim C8. For each of the three temperatures, all positive, the Boltzmann weights
  over the 100-point energy grid divided by their sum form a probability
  distribution that sums to 1; and as the temperature tends to infinity every
  probability tends to 1/100, the uniform distribution over the grid.
\<close>

theorem boltzmann_distribution:
  "(\<forall>T \<in> set temperatures.
      0 < T \<and> length (probabilities T) = 100 \<and> list_all (\<lambda>p. 0 < p) (probabilities T)
      \<and> sum_list (probabilities T) = 1)
   \<and> (\<forall>i < 100. ((\<lambda>T. probabilities T ! i) \<longlongrightarrow> 1 / 100) at_top)"
  by (simp add: temperatures_def length_probabilities probabilities_pos probabilities_sum
      probabilities_limit)

theorem boltzmann_distribution_witness:
  "5 \<in> set temperatures \<and> (0 :: nat) < 100
   \<and> sum_list (probabilities 5) = 1 \<and> ((\<lambda>T. probabilities T ! 0) \<longlongrightarrow> 1 / 100) at_top"
proof -
  have mem: "5 \<in> set temperatures" by (simp add: temperatures_def)
  from boltzmann_distribution have
    "\<forall>T \<in> set temperatures. sum_list (probabilities T) = 1"
    "\<forall>i < 100. ((\<lambda>T. probabilities T ! i) \<longlongrightarrow> 1 / 100) at_top"
    by simp_all
  with mem show ?thesis by auto
qed

section \<open>The status report\<close>

lemma header_text:
  "header = [''Name                 #Qubits    Pending jobs '',
             ''++++                 +++++++    ++++++++++++ '']"
  by code_simp

lemma print_rows_resolved:
  assumes "\<forall>b \<in> set bs. get_backend p (str_backend b) = Inr (f b)"
  shows "print_rows p bs out = (out @ map (\<lambda>b. row (f b)) bs, None)"
  using assms by (induction bs arbitrary: out) simp_all

lemma print_rows_failure:
  assumes "\<forall>b \<in> set bs. get_backend p (str_backend b) = Inr b"
    and "get_backend p (str_backend c) = Inl e"
  shows "print_rows p (bs @ c # cs) out = (out @ map row bs, Some e)"
  using assms by (induction bs arbitrary: out) simp_all

text \<open>
  Claim C9. The report prints the two header lines and then exactly one line for each
  backend of the listing, holding the name, the number of qubits and the number of
  pending jobs of that backend, in the order of the listing. The lookup of each listed
  backend by its name is taken to return that backend.
\<close>

theorem status_report_rows:
  assumes "\<forall>b \<in> set (backends p). get_backend p (str_backend b) = Inr b"
  shows "status_report p = (header @ map row (backends p), None)
       \<and> length header = 2
       \<and> length (fst (status_report p)) = 2 + length (backends p)
       \<and> (\<forall>i < length (backends p). fst (status_report p) ! (2 + i) = row (backends p ! i))"
proof -
  have eq: "status_report p = (header @ map row (backends p), None)"
    using print_rows_resolved [OF assms, of header] by (simp add: status_report_def)
  have len: "length header = 2" by (simp add: header_def)
  show ?thesis unfolding eq using len by (simp add: nth_append)
qed

lemma recorded_rows:
  "header @ map row recorded_backends =
     [''Name                 #Qubits    Pending jobs '',
      ''++++                 +++++++    ++++++++++++ '',
      ''ibmq_qasm_simulator  32         0         '',
      ''ibmqx2               5          81        '',
      ''ibmq_16_melbourne    14         2         '',
      ''ibmq_vigo            5          2         '',
      ''ibmq_ourense         5          2         '']"
  by code_simp

lemma recorded_lookup:
  "\<forall>b \<in> set (backends recorded_provider). get_backend recorded_provider (str_backend b) = Inr b"
  by (simp add: recorded_provider_def recorded_backends_def lookup_backend_def str_backend_def)

theorem status_report_rows_witness:
  "list_all (\<lambda>b. get_backend recorded_provider (str_backend b) = Inr b)
     (backends recorded_provider)
   \<and> status_report recorded_provider =
     ([''Name                 #Qubits    Pending jobs '',
       ''++++                 +++++++    ++++++++++++ '',
       ''ibmq_qasm_simulator  32         0         '',
       ''ibmqx2               5          81        '',
       ''ibmq_16_melbourne    14         2         '',
       ''ibmq_vigo            5          2         '',
       ''ibmq_ourense         5          2         ''], None)"
proof -
  have "backends recorded_provider = recorded_backends"
    by (simp add: recorded_provider_def)
  with status_report_rows [OF recorded_lookup] recorded_rows recorded_lookup
  show ?thesis by (simp add: list_all_iff)
qed

end
